theory Spec2Isabelle
  imports Main
begin

section \<open>The help subcommand of the wasmer-js command line\<close>

text \<open>
  The development embeds \<^verbatim>\<open>packages/cli/src/commands/help.ts\<close>: the callback
  \<^verbatim>\<open>runHelp\<close>, the help body of the help command and the command object itself.
  Standard output is the text written so far; the two imported descriptors
  \<^verbatim>\<open>runCommand\<close> and \<^verbatim>\<open>versionCommand\<close> are module bindings that are read when
  the code runs, so they are part of the state the functions take.
\<close>

subsection \<open>Platform: strings, indexing, the console\<close>

definition newline :: char where
  "newline = CHR 0x0A"

text \<open>
  \<^verbatim>\<open>args[i]\<close> on a JavaScript array: the element, or \<^verbatim>\<open>undefined\<close> (here \<open>None\<close>)
  when \<open>i\<close> is out of range. Nothing is raised.
\<close>

definition at :: "'a list \<Rightarrow> nat \<Rightarrow> 'a option" where
  "at xs i = (if i < length xs then Some (xs ! i) else None)"

text \<open>
  A value of type string-or-undefined inside a template literal \<^verbatim>\<open>`${v}`\<close>:
  a string stands for itself, \<^verbatim>\<open>undefined\<close> is rendered as the word.
\<close>

fun interpolate :: "string option \<Rightarrow> string" where
  "interpolate None = ''undefined''"
| "interpolate (Some s) = s"

text \<open>\<^verbatim>\<open>console.log(s)\<close> writes \<open>s\<close> and a line feed to standard output.\<close>

definition console_log :: "string \<Rightarrow> string \<Rightarrow> string" where
  "console_log s out = out @ s @ [newline]"

subsection \<open>Commands\<close>

text \<open>
  Modelled from the spec: the class \<^verbatim>\<open>Command\<close> of \<^verbatim>\<open>../command\<close> is not among the
  sources. Section 3 of the specification gives a descriptor the attributes
  \<^verbatim>\<open>name\<close> and \<^verbatim>\<open>description\<close> and "a capability to render its own help text";
  the constructor call in \<^verbatim>\<open>help.ts\<close> passes the four fields below. A closure of the
  source that takes no argument reads the bindings of its module when it is called;
  \<open>'e\<close> is the type of what it reads.
\<close>

record 'e Command =
  name :: string
  description :: string
  runCallback :: "string list \<Rightarrow> 'e \<Rightarrow> 'e"
  getHelpBody :: "'e \<Rightarrow> string"

text \<open>
  Modelled from the spec: the method \<^verbatim>\<open>Command.help()\<close> is missing with its class.
  By sections 4.1 and 8 the help operation of a command prints the command's usage
  block, which is what its \<^verbatim>\<open>getHelpBody\<close> returns: one \<^verbatim>\<open>console.log\<close> of the body.
  The function returns standard output after the call.
\<close>

definition Command_help :: "'e Command \<Rightarrow> 'e \<Rightarrow> string \<Rightarrow> string" where
  "Command_help c env out = console_log (getHelpBody c env) out"

text \<open>
  What \<^verbatim>\<open>help.ts\<close> can observe and change: the two imported command objects, the
  state \<open>ext\<close> that the closures of \<^verbatim>\<open>./run\<close> and \<^verbatim>\<open>./version\<close> read (of an
  arbitrary type, their modules are not among the sources), and standard output.
\<close>

record 'a world =
  runCommand :: "'a Command"
  versionCommand :: "'a Command"
  ext :: 'a
  stdout :: string

subsection \<open>help.ts\<close>

text \<open>
  The \<^verbatim>\<open>getHelpBody\<close> arrow function of the help command (lines 28 to 40): one
  template literal, whose line breaks are line feeds and whose four holes read the
  imported descriptors at the time of the call.
\<close>

definition command_getHelpBody :: "'a world \<Rightarrow> string" where
  "command_getHelpBody w =
     ''USAGE:'' @ [newline] @
     [newline] @
     ''$ wasmer-js help [SUBCOMMAND]'' @ [newline] @
     [newline] @
     ''ARGUMENTS:'' @ [newline] @
     [newline] @
     ''[SUBCOMMAND] - The subcommand we want to see the help message for '' @ [newline] @
     ''    '' @ [newline] @
     ''    The available subcommands (other than help) are:'' @ [newline] @
     ''    '' @ name (runCommand w) @ '' - '' @ description (runCommand w) @ [newline] @
     ''    '' @ name (versionCommand w) @ '' - '' @ description (versionCommand w)"

text \<open>
  \<^verbatim>\<open>helpCommand.help()\<close> as \<^verbatim>\<open>runHelp\<close> calls it. The source refers to
  \<^verbatim>\<open>helpCommand\<close> before the object is built (the callback runs later); the help
  method reads the object's \<^verbatim>\<open>getHelpBody\<close> only, so the call is written with that
  function, and \<open>help_helpCommand\<close> below shows it to be \<open>Command_help helpCommand\<close>.
\<close>

definition helpCommand_help :: "'a world \<Rightarrow> 'a world" where
  "helpCommand_help w = w\<lparr>stdout := console_log (command_getHelpBody w) (stdout w)\<rparr>"

text \<open>The callback \<^verbatim>\<open>runHelp\<close> (lines 6 to 22), branch by branch.\<close>

definition runHelp :: "string list \<Rightarrow> 'a world \<Rightarrow> 'a world" where
  "runHelp args w =
     (if length args = 0 \<or> at args 0 = Some ''help'' then helpCommand_help w
      else if at args 0 = Some (name (runCommand w)) then
        w\<lparr>stdout := Command_help (runCommand w) (ext w) (stdout w)\<rparr>
      else if at args 0 = Some (name (versionCommand w)) then
        w\<lparr>stdout := Command_help (versionCommand w) (ext w) (stdout w)\<rparr>
      else
        helpCommand_help
          (w\<lparr>stdout :=
               console_log (''Unrecognized subcommand: '' @ interpolate (at args 0)) (stdout w)\<rparr>))"

text \<open>The command object (lines 24 to 41) and its export.\<close>

definition command :: "'a world Command" where
  "command =
     \<lparr>name = ''help'',
      description = ''Show the usage of the passed subcommand'',
      runCallback = runHelp,
      getHelpBody = command_getHelpBody\<rparr>"

definition helpCommand :: "'a world Command" where
  "helpCommand = command"

subsection \<open>The specification's usage block and decision table\<close>

fun join_lines :: "string list \<Rightarrow> string" where
  "join_lines [] = []"
| "join_lines [l] = l"
| "join_lines (l # ls) = l @ newline # join_lines ls"

text \<open>
  The output format of section 6 of the specification, written from its words: eleven
  lines separated by line feeds, the seventh ending in a space, the eighth made of four
  spaces, the last two filled in from the names and descriptions of the run and the
  version descriptor.
\<close>

definition spec_usage_block :: "string \<Rightarrow> string \<Rightarrow> string \<Rightarrow> string \<Rightarrow> string" where
  "spec_usage_block rn rd vn vd =
     join_lines
       [''USAGE:'',
        '''',
        ''$ wasmer-js help [SUBCOMMAND]'',
        '''',
        ''ARGUMENTS:'',
        '''',
        ''[SUBCOMMAND] - The subcommand we want to see the help message for '',
        ''    '',
        ''    The available subcommands (other than help) are:'',
        ''    '' @ rn @ '' - '' @ rd,
        ''    '' @ vn @ '' - '' @ vd]"

definition spec_own_usage :: "'a world \<Rightarrow> string" where
  "spec_own_usage w =
     spec_usage_block (name (runCommand w)) (description (runCommand w))
       (name (versionCommand w)) (description (versionCommand w))"

text \<open>
  The decision table of section 4.1 of the specification, written from its words: four
  rows, each with a condition and an action, evaluated in order, so that a row fires
  when its condition holds and the condition of no row above it does.
\<close>

datatype row = OwnUsage | RunUsage | VersionUsage | Unrecognized

fun spec_condition :: "row \<Rightarrow> string list \<Rightarrow> 'a world \<Rightarrow> bool" where
  "spec_condition OwnUsage args w = (case args of [] \<Rightarrow> True | a # _ \<Rightarrow> a = ''help'')"
| "spec_condition RunUsage args w =
     (case args of [] \<Rightarrow> False | a # _ \<Rightarrow> a = name (runCommand w))"
| "spec_condition VersionUsage args w =
     (case args of [] \<Rightarrow> False | a # _ \<Rightarrow> a = name (versionCommand w))"
| "spec_condition Unrecognized args w = True"

fun rows_above :: "row \<Rightarrow> row list" where
  "rows_above OwnUsage = []"
| "rows_above RunUsage = [OwnUsage]"
| "rows_above VersionUsage = [OwnUsage, RunUsage]"
| "rows_above Unrecognized = [OwnUsage, RunUsage, VersionUsage]"

definition spec_fires :: "row \<Rightarrow> string list \<Rightarrow> 'a world \<Rightarrow> bool" where
  "spec_fires r args w =
     (spec_condition r args w \<and> list_all (\<lambda>r'. \<not> spec_condition r' args w) (rows_above r))"

fun spec_action :: "row \<Rightarrow> string list \<Rightarrow> 'a world \<Rightarrow> 'a world" where
  "spec_action OwnUsage args w = w\<lparr>stdout := stdout w @ spec_own_usage w @ [newline]\<rparr>"
| "spec_action RunUsage args w =
     w\<lparr>stdout := Command_help (runCommand w) (ext w) (stdout w)\<rparr>"
| "spec_action VersionUsage args w =
     w\<lparr>stdout := Command_help (versionCommand w) (ext w) (stdout w)\<rparr>"
| "spec_action Unrecognized args w =
     (case args of
        [] \<Rightarrow> w
      | a # _ \<Rightarrow>
          w\<lparr>stdout :=
              stdout w @ ''Unrecognized subcommand: '' @ a @ [newline]
                @ spec_own_usage w @ [newline]\<rparr>)"

subsection \<open>Observations and sample descriptors\<close>

text \<open>The text that one call of \<^verbatim>\<open>runHelp\<close> adds to standard output.\<close>

definition written :: "string list \<Rightarrow> 'a world \<Rightarrow> string" where
  "written args w = drop (length (stdout w)) (stdout (runHelp args w))"

text \<open>
  Stand-ins for the descriptors of \<^verbatim>\<open>./run\<close> and \<^verbatim>\<open>./version\<close>, registered under
  the names that section 6 of the specification gives them, and a second pair of
  bindings in which the run descriptor is registered under the name \<open>help\<close>.
\<close>

definition example_run :: "unit Command" where
  "example_run =
     \<lparr>name = ''run'', description = ''Run a WebAssembly file'',
      runCallback = (\<lambda>_ e. e), getHelpBody = (\<lambda>_. ''usage of run'')\<rparr>"

definition example_version :: "unit Command" where
  "example_version =
     \<lparr>name = ''version'', description = ''Print the version'',
      runCallback = (\<lambda>_ e. e), getHelpBody = (\<lambda>_. ''usage of version'')\<rparr>"

definition example_world :: "unit world" where
  "example_world =
     \<lparr>runCommand = example_run, versionCommand = example_version, ext = (), stdout = ''''\<rparr>"

definition shadow_world :: "unit world" where
  "shadow_world = example_world\<lparr>runCommand := example_run\<lparr>name := ''help''\<rparr>\<rparr>"

section \<open>Properties\<close>

subsection \<open>Auxiliary facts\<close>

lemma help_helpCommand:
  "w\<lparr>stdout := Command_help helpCommand w (stdout w)\<rparr> = helpCommand_help w"
  by (simp add: Command_help_def helpCommand_def command_def helpCommand_help_def)

lemma at_0: "at args 0 = (case args of [] \<Rightarrow> None | a # _ \<Rightarrow> Some a)"
  by (cases args) (simp_all add: at_def)

text \<open>The template literal of the source is the block of the specification.\<close>

lemma getHelpBody_usage: "command_getHelpBody w = spec_own_usage w"
  by (simp add: command_getHelpBody_def spec_own_usage_def spec_usage_block_def)

lemma helpCommand_help_usage:
  "helpCommand_help w = w\<lparr>stdout := stdout w @ spec_own_usage w @ [newline]\<rparr>"
  by (simp add: helpCommand_help_def console_log_def getHelpBody_usage)

lemma example_names:
  "name (runCommand example_world) = ''run''"
  "name (versionCommand example_world) = ''version''"
  by (simp_all add: example_world_def example_run_def example_version_def)

text \<open>
  The source compares the first argument with the name under which a descriptor is
  registered, not with a literal: an argument equal to that name reaches the
  descriptor's help operation whatever the name is (short of \<open>help\<close>), and the token
  \<open>run\<close> is unrecognized when no descriptor is registered under it.
\<close>

lemma registered_run_routed:
  "name (runCommand w) \<noteq> ''help'' \<Longrightarrow>
   runHelp (name (runCommand w) # rest) w =
     w\<lparr>stdout := Command_help (runCommand w) (ext w) (stdout w)\<rparr>"
  by (simp add: runHelp_def at_0)

lemma registered_version_routed:
  "name (versionCommand w) \<noteq> ''help'' \<Longrightarrow>
   name (versionCommand w) \<noteq> name (runCommand w) \<Longrightarrow>
   runHelp (name (versionCommand w) # rest) w =
     w\<lparr>stdout := Command_help (versionCommand w) (ext w) (stdout w)\<rparr>"
  by (simp add: runHelp_def at_0)

lemma literal_run_unregistered:
  "name (runCommand w) \<noteq> ''run'' \<Longrightarrow> name (versionCommand w) \<noteq> ''run'' \<Longrightarrow>
   stdout (runHelp [''run''] w) =
     stdout w @ ''Unrecognized subcommand: run'' @ [newline] @ spec_own_usage w @ [newline]"
  by (simp add: runHelp_def at_0 console_log_def helpCommand_help_usage spec_own_usage_def)

lemma fires_simps:
  "spec_fires OwnUsage args w = (args = [] \<or> hd args = ''help'')"
  "spec_fires RunUsage args w =
     (args \<noteq> [] \<and> hd args \<noteq> ''help'' \<and> hd args = name (runCommand w))"
  "spec_fires VersionUsage args w =
     (args \<noteq> [] \<and> hd args \<noteq> ''help'' \<and> hd args \<noteq> name (runCommand w)
      \<and> hd args = name (versionCommand w))"
  "spec_fires Unrecognized args w =
     (args \<noteq> [] \<and> hd args \<noteq> ''help'' \<and> hd args \<noteq> name (runCommand w)
      \<and> hd args \<noteq> name (versionCommand w))"
  by (cases args; auto simp: spec_fires_def)+

lemma fires_unique: "\<exists>!r. spec_fires r args w"
proof -
  consider (own) "args = [] \<or> hd args = ''help''"
    | (run) "args \<noteq> []" "hd args \<noteq> ''help''" "hd args = name (runCommand w)"
    | (version) "args \<noteq> []" "hd args \<noteq> ''help''" "hd args \<noteq> name (runCommand w)"
        "hd args = name (versionCommand w)"
    | (other) "args \<noteq> []" "hd args \<noteq> ''help''" "hd args \<noteq> name (runCommand w)"
        "hd args \<noteq> name (versionCommand w)"
    by blast
  then show ?thesis
  proof cases
    case own
    then have "spec_fires r args w \<longleftrightarrow> r = OwnUsage" for r
      by (cases r) (auto simp: fires_simps)
    then show ?thesis by simp
  next
    case run
    then have "spec_fires r args w \<longleftrightarrow> r = RunUsage" for r
      by (cases r) (auto simp: fires_simps)
    then show ?thesis by simp
  next
    case version
    then have "spec_fires r args w \<longleftrightarrow> r = VersionUsage" for r
      by (cases r) (auto simp: fires_simps)
    then show ?thesis by simp
  next
    case other
    then have "spec_fires r args w \<longleftrightarrow> r = Unrecognized" for r
      by (cases r) (auto simp: fires_simps)
    then show ?thesis by simp
  qed
qed

lemma runHelp_action: "spec_fires r args w \<Longrightarrow> runHelp args w = spec_action r args w"
proof (cases args)
  case Nil
  then show "spec_fires r args w \<Longrightarrow> runHelp args w = spec_action r args w"
    by (cases r) (simp_all add: fires_simps runHelp_def helpCommand_help_usage)
next
  case (Cons a rest)
  then show "spec_fires r args w \<Longrightarrow> runHelp args w = spec_action r args w"
    by (cases r)
      (auto simp: fires_simps runHelp_def at_0 helpCommand_help_usage console_log_def
        spec_own_usage_def)
qed

text \<open>
  The text of one call depends on the arguments, the descriptors and what their
  closures read, not on what was written before; nothing but standard output changes.
\<close>

lemma runHelp_appends:
  "\<exists>t. t \<noteq> [] \<and> (\<forall>out. runHelp args (w\<lparr>stdout := out\<rparr>) = w\<lparr>stdout := out @ t\<rparr>)"
proof -
  define t where "t =
    (if length args = 0 \<or> at args 0 = Some ''help'' then spec_own_usage w @ [newline]
     else if at args 0 = Some (name (runCommand w)) then
       getHelpBody (runCommand w) (ext w) @ [newline]
     else if at args 0 = Some (name (versionCommand w)) then
       getHelpBody (versionCommand w) (ext w) @ [newline]
     else ''Unrecognized subcommand: '' @ interpolate (at args 0) @ [newline]
       @ spec_own_usage w @ [newline])"
  have "t \<noteq> []"
    by (simp add: t_def)
  moreover have "runHelp args (w\<lparr>stdout := out\<rparr>) = w\<lparr>stdout := out @ t\<rparr>" for out
    by (simp add: t_def runHelp_def helpCommand_help_usage Command_help_def console_log_def
        spec_own_usage_def)
  ultimately show ?thesis by blast
qed

lemma runHelp_written:
  "runHelp args w = w\<lparr>stdout := stdout w @ written args w\<rparr>"
  "written args w \<noteq> []"
  "written args (w\<lparr>stdout := out\<rparr>) = written args w"
proof -
  from runHelp_appends [of args w] obtain t where t: "t \<noteq> []"
    and run: "\<And>out. runHelp args (w\<lparr>stdout := out\<rparr>) = w\<lparr>stdout := out @ t\<rparr>"
    by blast
  have w: "written args (w\<lparr>stdout := out\<rparr>) = t" for out
    by (simp add: written_def run)
  from w [of "stdout w"] have wt: "written args w = t" by simp
  from run [of "stdout w"] wt show "runHelp args w = w\<lparr>stdout := stdout w @ written args w\<rparr>"
    by simp
  from t wt show "written args w \<noteq> []" by simp
  from w wt show "written args (w\<lparr>stdout := out\<rparr>) = written args w" by simp
qed

subsection \<open>The claims\<close>

text \<open>
  C1. For the empty argument list and for the argument list \<open>[help]\<close>, \<open>runHelp\<close>
  prints exactly the usage block of section 6 of the specification, byte for byte (the
  space after "for" and the line of four spaces included), its last two lines filled
  in from the name and the description of the run and of the version descriptor.
  Printing is one \<^verbatim>\<open>console.log\<close> of the block.
\<close>

theorem runHelp_usage:
  "runHelp [] w = w\<lparr>stdout := console_log (spec_own_usage w) (stdout w)\<rparr>
   \<and> runHelp [''help''] w = w\<lparr>stdout := console_log (spec_own_usage w) (stdout w)\<rparr>"
  by (simp add: runHelp_def at_0 helpCommand_help_usage console_log_def)

theorem runHelp_usage_witness:
  "stdout (runHelp [] example_world) =
     ''USAGE:\<newline>\<newline>$ wasmer-js help [SUBCOMMAND]\<newline>\<newline>ARGUMENTS:\<newline>\<newline>[SUBCOMMAND] - The subcommand we want to see the help message for \<newline>    \<newline>    The available subcommands (other than help) are:\<newline>    run - Run a WebAssembly file\<newline>    version - Print the version\<newline>''"
  using runHelp_usage [of example_world]
  by (simp add: console_log_def spec_own_usage_def spec_usage_block_def newline_def
      example_world_def example_run_def example_version_def)

text \<open>
  C2. For the argument list \<open>[run]\<close>, \<open>runHelp\<close> does what the help operation of the
  run descriptor does and nothing more. The source compares the argument with the
  name under which the run descriptor is registered; that descriptor is defined
  outside \<^verbatim>\<open>help.ts\<close>, and the statement holds when it is registered under the name
  \<open>run\<close>, as section 6 of the specification has it.
\<close>

theorem runHelp_run:
  "name (runCommand w) = ''run'' \<Longrightarrow>
   runHelp [''run''] w = w\<lparr>stdout := Command_help (runCommand w) (ext w) (stdout w)\<rparr>"
  by (simp add: runHelp_def at_0)

theorem runHelp_run_witness:
  "name (runCommand example_world) = ''run''
   \<and> stdout (runHelp [''run''] example_world) = ''usage of run\<newline>''"
proof -
  have h: "name (runCommand example_world) = ''run''"
    by (rule example_names)
  from runHelp_run [OF h] show ?thesis
    using h
    by (simp add: Command_help_def console_log_def newline_def example_world_def
        example_run_def)
qed

text \<open>
  C3. For the argument list \<open>[version]\<close>, \<open>runHelp\<close> does what the help operation of
  the version descriptor does and nothing more, when the version descriptor is
  registered under the name \<open>version\<close> and the run descriptor under another name.
\<close>

theorem runHelp_version:
  "name (versionCommand w) = ''version'' \<Longrightarrow> name (runCommand w) \<noteq> ''version'' \<Longrightarrow>
   runHelp [''version''] w =
     w\<lparr>stdout := Command_help (versionCommand w) (ext w) (stdout w)\<rparr>"
  by (simp add: runHelp_def at_0)

theorem runHelp_version_witness:
  "name (versionCommand example_world) = ''version''
   \<and> name (runCommand example_world) \<noteq> ''version''
   \<and> stdout (runHelp [''version''] example_world) = ''usage of version\<newline>''"
proof -
  have v: "name (versionCommand example_world) = ''version''"
    by (rule example_names)
  have r: "name (runCommand example_world) \<noteq> ''version''"
    by (simp add: example_names)
  from runHelp_version [OF v r] show ?thesis
    using v r
    by (simp add: Command_help_def console_log_def newline_def example_world_def
        example_version_def)
qed

text \<open>
  C4. For a non-empty argument list whose first element is neither \<open>help\<close> nor the
  registered name of the run descriptor nor that of the version descriptor, \<open>runHelp\<close>
  logs \<open>Unrecognized subcommand:\<close> with that element and then calls the help operation
  of the help command: standard output grows by that line, the usage block of the help
  command and nothing else.
\<close>

theorem runHelp_unrecognized:
  assumes "args \<noteq> []"
    and "hd args \<noteq> ''help''"
    and "hd args \<noteq> name (runCommand w)"
    and "hd args \<noteq> name (versionCommand w)"
  shows "runHelp args w =
           w\<lparr>stdout :=
               Command_help helpCommand
                 (w\<lparr>stdout := console_log (''Unrecognized subcommand: '' @ hd args) (stdout w)\<rparr>)
                 (console_log (''Unrecognized subcommand: '' @ hd args) (stdout w))\<rparr>
         \<and> stdout (runHelp args w) =
             stdout w @ ''Unrecognized subcommand: '' @ hd args @ [newline]
               @ spec_own_usage w @ [newline]"
proof -
  from assms(1) obtain a rest where args: "args = a # rest"
    by (cases args) auto
  with assms have out: "stdout (runHelp args w) =
      stdout w @ ''Unrecognized subcommand: '' @ hd args @ [newline]
        @ spec_own_usage w @ [newline]"
    by (simp add: runHelp_def at_0 console_log_def helpCommand_help_usage spec_own_usage_def)
  from args assms have "runHelp args w =
      w\<lparr>stdout :=
          Command_help helpCommand
            (w\<lparr>stdout := console_log (''Unrecognized subcommand: '' @ hd args) (stdout w)\<rparr>)
            (console_log (''Unrecognized subcommand: '' @ hd args) (stdout w))\<rparr>"
    by (simp add: runHelp_def at_0 help_helpCommand [symmetric])
  with out show ?thesis by simp
qed

theorem runHelp_unrecognized_witness:
  "[''bogus''] \<noteq> [] \<and> hd [''bogus''] \<noteq> ''help''
   \<and> hd [''bogus''] \<noteq> name (runCommand example_world)
   \<and> hd [''bogus''] \<noteq> name (versionCommand example_world)
   \<and> stdout (runHelp [''bogus''] example_world) =
       ''Unrecognized subcommand: bogus\<newline>USAGE:\<newline>\<newline>$ wasmer-js help [SUBCOMMAND]\<newline>\<newline>ARGUMENTS:\<newline>\<newline>[SUBCOMMAND] - The subcommand we want to see the help message for \<newline>    \<newline>    The available subcommands (other than help) are:\<newline>    run - Run a WebAssembly file\<newline>    version - Print the version\<newline>''"
proof -
  have a: "[''bogus''] \<noteq> ([] :: string list)" by simp
  have h: "hd [''bogus''] \<noteq> ''help''" by simp
  have r: "hd [''bogus''] \<noteq> name (runCommand example_world)"
    by (simp add: example_names)
  have v: "hd [''bogus''] \<noteq> name (versionCommand example_world)"
    by (simp add: example_names)
  from runHelp_unrecognized [OF a h r v, THEN conjunct2] show ?thesis
    using r v
    by (simp add: spec_own_usage_def spec_usage_block_def newline_def example_world_def
        example_run_def example_version_def)
qed

text \<open>
  C5. \<open>runHelp\<close> is total and raises nothing: for every argument list, the empty
  one included, exactly one row of the decision table fires, the call returns the
  state that the action of that row gives, and it adds text to standard output. On the
  empty list the first row fires and the text is the usage block: the undefined value
  of \<^verbatim>\<open>args[0]\<close> reaches neither a comparison that matters nor the output.
\<close>

theorem runHelp_total:
  "(\<exists>!r. spec_fires r args w)
   \<and> (\<forall>r. spec_fires r args w \<longrightarrow> runHelp args w = spec_action r args w)
   \<and> stdout (runHelp args w) = stdout w @ written args w
   \<and> written args w \<noteq> []
   \<and> (args = [] \<longrightarrow> written args w = spec_own_usage w @ [newline])"
proof (intro conjI allI impI)
  show "\<exists>!r. spec_fires r args w"
    by (rule fires_unique)
  show "runHelp args w = spec_action r args w" if "spec_fires r args w" for r
    using that by (rule runHelp_action)
  show "stdout (runHelp args w) = stdout w @ written args w"
    by (subst runHelp_written(1)) simp
  show "written args w \<noteq> []"
    by (rule runHelp_written(2))
  show "written args w = spec_own_usage w @ [newline]" if "args = []"
    using that by (simp add: written_def runHelp_def helpCommand_help_usage)
qed

theorem runHelp_total_witness:
  "spec_fires OwnUsage [] example_world
   \<and> runHelp [] example_world = spec_action OwnUsage [] example_world
   \<and> written [] example_world = spec_own_usage example_world @ [newline]
   \<and> \<not> spec_fires Unrecognized [] example_world"
proof -
  have f: "spec_fires OwnUsage [] example_world"
    by (simp add: spec_fires_def)
  have n: "\<not> spec_fires Unrecognized [] example_world"
    by (simp add: spec_fires_def)
  from runHelp_total [of "[]" example_world] f n show ?thesis
    by blast
qed

text \<open>
  C6. The usage block is built when it is rendered, from the descriptors as they are
  then: the help command is one fixed object, and whatever run and version descriptor
  are bound when \<open>runHelp\<close> is called (a descriptor with a changed name or
  description among them), its help body and the printed text carry their names and
  descriptions.
\<close>

theorem usage_block_live:
  "getHelpBody helpCommand (w\<lparr>runCommand := r, versionCommand := v\<rparr>) =
     spec_usage_block (name r) (description r) (name v) (description v)
   \<and> stdout (runHelp [] (w\<lparr>runCommand := r, versionCommand := v\<rparr>)) =
       stdout w @ spec_usage_block (name r) (description r) (name v) (description v)
         @ [newline]"
  by (simp add: helpCommand_def command_def getHelpBody_usage helpCommand_help_usage
      runHelp_def spec_own_usage_def)

theorem usage_block_live_witness:
  "stdout (runHelp []
     (example_world\<lparr>runCommand := example_run\<lparr>description := ''Execute a module''\<rparr>,
        versionCommand := example_version\<lparr>name := ''ver''\<rparr>\<rparr>)) =
     ''USAGE:\<newline>\<newline>$ wasmer-js help [SUBCOMMAND]\<newline>\<newline>ARGUMENTS:\<newline>\<newline>[SUBCOMMAND] - The subcommand we want to see the help message for \<newline>    \<newline>    The available subcommands (other than help) are:\<newline>    run - Execute a module\<newline>    ver - Print the version\<newline>''"
  using usage_block_live [where w = example_world
      and r = "example_run\<lparr>description := ''Execute a module''\<rparr>"
      and v = "example_version\<lparr>name := ''ver''\<rparr>", THEN conjunct2]
  by (simp add: spec_usage_block_def newline_def example_world_def example_run_def
      example_version_def)

text \<open>
  C7. \<open>runHelp\<close> is idempotent and keeps no state: called twice in a row with the same
  arguments it writes the same text both times, and a call leaves the descriptors and
  what their closures read as they were; only standard output grows.
\<close>

theorem runHelp_idempotent:
  "stdout (runHelp args w) = stdout w @ written args w
   \<and> stdout (runHelp args (runHelp args w)) = stdout w @ written args w @ written args w
   \<and> written args (runHelp args w) = written args w
   \<and> runCommand (runHelp args w) = runCommand w
   \<and> versionCommand (runHelp args w) = versionCommand w
   \<and> ext (runHelp args w) = ext w"
proof -
  have one: "runHelp args w = w\<lparr>stdout := stdout w @ written args w\<rparr>"
    by (rule runHelp_written(1))
  have any: "runHelp args (w\<lparr>stdout := out\<rparr>) = w\<lparr>stdout := out @ written args w\<rparr>" for out
    using runHelp_written(1) [of args "w\<lparr>stdout := out\<rparr>"]
    by (simp add: runHelp_written(3))
  have two: "runHelp args (runHelp args w) =
      w\<lparr>stdout := (stdout w @ written args w) @ written args w\<rparr>"
    by (subst one) (simp add: any)
  have same: "written args (runHelp args w) = written args w"
    by (subst one) (simp add: runHelp_written(3))
  have "stdout (runHelp args w) = stdout w @ written args w"
    by (subst one) simp
  moreover have "stdout (runHelp args (runHelp args w)) =
      stdout w @ written args w @ written args w"
    by (simp add: two)
  moreover have "runCommand (runHelp args w) = runCommand w"
    by (subst one) simp
  moreover have "versionCommand (runHelp args w) = versionCommand w"
    by (subst one) simp
  moreover have "ext (runHelp args w) = ext w"
    by (subst one) simp
  ultimately show ?thesis
    using same by simp
qed

theorem runHelp_idempotent_witness:
  "stdout (runHelp [''run''] (runHelp [''run''] example_world)) =
     ''usage of run\<newline>usage of run\<newline>''"
proof -
  have "written [''run''] example_world = ''usage of run\<newline>''"
    by (simp add: written_def runHelp_def at_0 Command_help_def console_log_def newline_def
        example_world_def example_run_def)
  with runHelp_idempotent [of "[''run'']" example_world] show ?thesis
    by (simp add: example_world_def)
qed

text \<open>
  C9. Only the first argument is read: two non-empty argument lists with the same first
  element give the same result.
\<close>

theorem runHelp_first_argument:
  "args \<noteq> [] \<Longrightarrow> args' \<noteq> [] \<Longrightarrow> hd args = hd args' \<Longrightarrow> runHelp args w = runHelp args' w"
  by (cases args; cases args') (simp_all add: runHelp_def at_0)

theorem runHelp_first_argument_witness:
  "[''version'', ''--verbose''] \<noteq> [] \<and> [''version''] \<noteq> []
   \<and> hd [''version'', ''--verbose''] = hd [''version'']
   \<and> runHelp [''version'', ''--verbose''] example_world = runHelp [''version''] example_world"
proof -
  have a: "[''version'', ''--verbose''] \<noteq> ([] :: string list)" by simp
  have b: "[''version''] \<noteq> ([] :: string list)" by simp
  have c: "hd [''version'', ''--verbose''] = hd [''version'']" by simp
  from runHelp_first_argument [OF a b c, of example_world] show ?thesis
    by simp
qed

text \<open>
  C10. The literal \<open>help\<close> comes first: for the argument list \<open>[help]\<close>, \<open>runHelp\<close>
  does what the help operation of the help command does and prints the usage block,
  in every state of the descriptors, also when the run or the version descriptor is
  itself registered under the name \<open>help\<close>; the help operation of that descriptor
  does not run.
\<close>

theorem runHelp_help_precedence:
  "runHelp [''help''] w = w\<lparr>stdout := Command_help helpCommand w (stdout w)\<rparr>
   \<and> stdout (runHelp [''help''] w) = stdout w @ spec_own_usage w @ [newline]"
  by (simp add: runHelp_def at_0 help_helpCommand helpCommand_help_usage)

theorem runHelp_help_precedence_witness:
  "name (runCommand shadow_world) = ''help''
   \<and> stdout (runHelp [''help''] shadow_world) =
       ''USAGE:\<newline>\<newline>$ wasmer-js help [SUBCOMMAND]\<newline>\<newline>ARGUMENTS:\<newline>\<newline>[SUBCOMMAND] - The subcommand we want to see the help message for \<newline>    \<newline>    The available subcommands (other than help) are:\<newline>    help - Run a WebAssembly file\<newline>    version - Print the version\<newline>''
   \<and> Command_help (runCommand shadow_world) (ext shadow_world) (stdout shadow_world) =
       ''usage of run\<newline>''"
  using runHelp_help_precedence [of shadow_world, THEN conjunct2]
  by (simp add: shadow_world_def spec_own_usage_def spec_usage_block_def newline_def
      Command_help_def console_log_def example_world_def example_run_def example_version_def)

text \<open>
  C8. The help command is registered under the name \<open>help\<close>, with the description
  \<open>Show the usage of the passed subcommand\<close>, and \<open>runHelp\<close> is its run callback.
\<close>

theorem helpCommand_registration:
  "name helpCommand = ''help''
   \<and> description helpCommand = ''Show the usage of the passed subcommand''
   \<and> runCallback helpCommand = runHelp"
  by (simp add: helpCommand_def command_def)

end
